theory Spec2Isabelle
  imports Complex_Main "HOL-Library.AList"
begin

section \<open>JavaScript values\<close>

text \<open>
  The server (\<^verbatim>\<open>src/san_rate_env.js\<close>) is an Express application. Its handlers work on
  the values of parsed JSON request bodies and of database documents. A value is
  modelled by \<open>jsval\<close>. An object is an association list in the engine's property order
  (the order \<^verbatim>\<open>JSON.stringify\<close> and \<^verbatim>\<open>Object.keys\<close> enumerate: for keys that are not array
  indices, the order in which they were added), because the digest of an order depends
  on that order. The keys of an object are distinct.

  Numbers: a finite JavaScript number is modelled by the rational it denotes and
  arithmetic is exact; the rounding error of IEEE double arithmetic and the infinities
  are not modelled. \<open>JNaN\<close> is the one non-finite number the code tests for
  (\<^verbatim>\<open>isNaN\<close>). Strings are lists of 8-bit characters.
\<close>

datatype jsval =
    JUndefined
  | JNull
  | JBool bool
  | JNum rat
  | JNaN
  | JStr string
  | JArr "jsval list"
  | JObj "(string \<times> jsval) list"

text \<open>Exceptions are values: \<^verbatim>\<open>throw new Error(msg)\<close> and the engine's \<^verbatim>\<open>TypeError\<close>.\<close>

datatype js_error = Error string | TypeError string

fun message :: "js_error \<Rightarrow> string" where
  "message (Error m) = m"
| "message (TypeError m) = m"

text \<open>\<^verbatim>\<open>ToBoolean\<close>, as used by \<^verbatim>\<open>!x\<close>, \<^verbatim>\<open>if (x)\<close> and \<^verbatim>\<open>filter(Boolean)\<close>.\<close>

fun truthy :: "jsval \<Rightarrow> bool" where
  "truthy JUndefined = False"
| "truthy JNull = False"
| "truthy (JBool b) = b"
| "truthy (JNum q) = (q \<noteq> 0)"
| "truthy JNaN = False"
| "truthy (JStr s) = (s \<noteq> [])"
| "truthy (JArr xs) = True"
| "truthy (JObj kvs) = True"

text \<open>
  \<^verbatim>\<open>typeof v === 'object'\<close> (true of \<^verbatim>\<open>null\<close> and of arrays), \<^verbatim>\<open>typeof v === 'string'\<close>
  and \<^verbatim>\<open>Array.isArray\<close>.
\<close>

fun typeof_object :: "jsval \<Rightarrow> bool" where
  "typeof_object JNull = True"
| "typeof_object (JArr xs) = True"
| "typeof_object (JObj kvs) = True"
| "typeof_object v = False"

fun typeof_string :: "jsval \<Rightarrow> bool" where
  "typeof_string (JStr s) = True"
| "typeof_string v = False"

fun isArray :: "jsval \<Rightarrow> bool" where
  "isArray (JArr xs) = True"
| "isArray v = False"

text \<open>
  Property read \<^verbatim>\<open>v.k\<close> on a value that is neither \<^verbatim>\<open>null\<close> nor \<^verbatim>\<open>undefined\<close>, for
  the property names this program reads (\<^verbatim>\<open>cart\<close>, \<^verbatim>\<open>address\<close>, \<^verbatim>\<open>pricing\<close>,
  \<^verbatim>\<open>productCode\<close>, \<^verbatim>\<open>productName\<close>, \<^verbatim>\<open>price\<close>, \<^verbatim>\<open>size\<close>, \<^verbatim>\<open>order\<close>,
  \<^verbatim>\<open>orderHash\<close>, \<^verbatim>\<open>clientId\<close>): none of them is a property of an array, a string, a
  number or a boolean, nor inherited by an object, so the read is \<^verbatim>\<open>undefined\<close> unless
  the object holds the key.
\<close>

fun get :: "jsval \<Rightarrow> string \<Rightarrow> jsval" where
  "get (JObj kvs) k = (case map_of kvs k of Some v \<Rightarrow> v | None \<Rightarrow> JUndefined)"
| "get v k = JUndefined"

text \<open>The same read where the receiver may be \<^verbatim>\<open>null\<close> or \<^verbatim>\<open>undefined\<close>: the engine throws.\<close>

definition cannot_read :: "string \<Rightarrow> string \<Rightarrow> js_error" where
  "cannot_read what k =
     TypeError (''Cannot read properties of '' @ what @ '' (reading '' @ [CHR 0x27] @ k @ [CHR 0x27] @ '')'')"

fun read_prop :: "jsval \<Rightarrow> string \<Rightarrow> js_error + jsval" where
  "read_prop JUndefined k = Inl (cannot_read ''undefined'' k)"
| "read_prop JNull k = Inl (cannot_read ''null'' k)"
| "read_prop v k = Inr (get v k)"

text \<open>
  \<^verbatim>\<open>xs.map(f)\<close> where \<open>f\<close> may throw: the elements are visited in order and the first
  exception ends the loop.
\<close>

fun map_throw :: "('a \<Rightarrow> js_error + 'b) \<Rightarrow> 'a list \<Rightarrow> js_error + 'b list" where
  "map_throw f [] = Inr []"
| "map_throw f (x # xs) =
     (case f x of
        Inl e \<Rightarrow> Inl e
      | Inr y \<Rightarrow> (case map_throw f xs of Inl e \<Rightarrow> Inl e | Inr ys \<Rightarrow> Inr (y # ys)))"

text \<open>
  \<^verbatim>\<open>v.map(f)\<close> on an arbitrary receiver: only an array has a \<^verbatim>\<open>map\<close> method (a parsed
  JSON object may hold a key \<^verbatim>\<open>map\<close>, but never a function).
\<close>

fun array_map :: "(jsval \<Rightarrow> js_error + jsval) \<Rightarrow> jsval \<Rightarrow> js_error + jsval list" where
  "array_map f (JArr xs) = map_throw f xs"
| "array_map f JUndefined = Inl (cannot_read ''undefined'' ''map'')"
| "array_map f JNull = Inl (cannot_read ''null'' ''map'')"
| "array_map f v = Inl (TypeError ''map is not a function'')"

section \<open>\<^verbatim>\<open>JSON.stringify\<close>\<close>

subsection \<open>Numbers\<close>

text \<open>
  \<^verbatim>\<open>Number::toString\<close> in positional decimal notation: an optional sign, the digits of
  the integer part and, when the number is not an integer, a point and the digits of the
  fraction. The fraction is printed digit by digit until nothing is left, at most
  \<open>fraction_limit\<close> digits (a double prints with at most 17 significant digits). The
  exponent notation that JavaScript uses below \<open>10\<^sup>-\<^sup>6\<close> and from \<open>10\<^sup>2\<^sup>1\<close> on is not
  modelled.
\<close>

definition digit :: "nat \<Rightarrow> char" where
  "digit d = char_of (48 + d)"

fun digits :: "nat \<Rightarrow> string" where
  "digits n = (if n < 10 then [digit n] else digits (n div 10) @ [digit (n mod 10)])"

declare digits.simps [simp del]

fun frac_digits :: "nat \<Rightarrow> rat \<Rightarrow> string" where
  "frac_digits 0 f = []"
| "frac_digits (Suc n) f =
     (if f = 0 then []
      else digit (nat \<lfloor>10 * f\<rfloor>) # frac_digits n (10 * f - of_int \<lfloor>10 * f\<rfloor>))"

definition fraction_limit :: nat where
  "fraction_limit = 20"

definition abs_to_string :: "rat \<Rightarrow> string" where
  "abs_to_string q =
     digits (nat \<lfloor>q\<rfloor>) @
     (if of_int \<lfloor>q\<rfloor> = q then []
      else CHR ''.'' # frac_digits fraction_limit (q - of_int \<lfloor>q\<rfloor>))"

definition num_to_string :: "rat \<Rightarrow> string" where
  "num_to_string q = (if q < 0 then CHR ''-'' # abs_to_string (- q) else abs_to_string q)"

subsection \<open>Strings\<close>

text \<open>
  \<^verbatim>\<open>QuoteJSONString\<close>: the string between double quotes, with the double quote and the
  backslash escaped by a backslash, the control characters 8, 9, 10, 12 and 13 written
  \<^verbatim>\<open>\b \t \n \f \r\<close> and every other character below 32 written \<^verbatim>\<open>\u00XX\<close> in lower-case
  hexadecimal.
\<close>

definition dquote :: char where "dquote = CHR 0x22"
definition backslash :: char where "backslash = CHR 0x5C"

definition hex_digit :: "nat \<Rightarrow> char" where
  "hex_digit d = (if d < 10 then char_of (48 + d) else char_of (87 + d))"

definition escape :: "char \<Rightarrow> string" where
  "escape c =
     (if c = dquote then [backslash, dquote]
      else if c = backslash then [backslash, backslash]
      else if c = CHR 0x08 then [backslash, CHR ''b'']
      else if c = CHR 0x09 then [backslash, CHR ''t'']
      else if c = CHR 0x0A then [backslash, CHR ''n'']
      else if c = CHR 0x0C then [backslash, CHR ''f'']
      else if c = CHR 0x0D then [backslash, CHR ''r'']
      else if (of_char c :: nat) < 32
        then [backslash, CHR ''u'', CHR ''0'', CHR ''0'',
              hex_digit (of_char c div 16), hex_digit (of_char c mod 16)]
      else [c])"

definition quote :: "string \<Rightarrow> string" where
  "quote s = dquote # concat (map escape s) @ [dquote]"

subsection \<open>Values\<close>

fun join :: "string \<Rightarrow> string list \<Rightarrow> string" where
  "join sep [] = []"
| "join sep [x] = x"
| "join sep (x # y # ys) = x @ sep @ join sep (y # ys)"

text \<open>
  \<^verbatim>\<open>SerializeJSONProperty\<close>: \<open>None\<close> stands for the result \<^verbatim>\<open>undefined\<close>. A property whose
  value is \<^verbatim>\<open>undefined\<close> is left out of an object; an \<^verbatim>\<open>undefined\<close> element of an array
  is written \<^verbatim>\<open>null\<close>, and so is \<^verbatim>\<open>NaN\<close>. The properties of an object are written in
  the object's own order: nothing sorts the keys.
\<close>

fun serialize :: "jsval \<Rightarrow> string option"
  and elements :: "jsval list \<Rightarrow> string list"
  and properties :: "(string \<times> jsval) list \<Rightarrow> string list" where
  "serialize JUndefined = None"
| "serialize JNull = Some ''null''"
| "serialize (JBool b) = Some (if b then ''true'' else ''false'')"
| "serialize (JNum q) = Some (num_to_string q)"
| "serialize JNaN = Some ''null''"
| "serialize (JStr s) = Some (quote s)"
| "serialize (JArr xs) = Some (''['' @ join '','' (elements xs) @ '']'')"
| "serialize (JObj kvs) = Some (''{'' @ join '','' (properties kvs) @ ''}'')"
| "elements [] = []"
| "elements (x # xs) = (case serialize x of None \<Rightarrow> ''null'' | Some s \<Rightarrow> s) # elements xs"
| "properties [] = []"
| "properties (kv # kvs) =
     (case serialize (snd kv) of
        None \<Rightarrow> properties kvs
      | Some s \<Rightarrow> (quote (fst kv) @ '':'' @ s) # properties kvs)"

section \<open>The integrity digest\<close>

text \<open>
  The collaborators that are not code of the repository are parameters of the model:
  \<^item> \<open>hmac key msg\<close> is
    \<^verbatim>\<open>crypto.createHmac('sha256', key).update(msg).digest('hex')\<close>;
  \<^item> \<open>jwt_verify token secret\<close> is \<^verbatim>\<open>jwt.verify(token, secret)\<close> of the
    \<^verbatim>\<open>jsonwebtoken\<close> package: the decoded payload, or the exception it throws;
  \<^item> \<open>SECRET_KEY\<close> and \<open>JWT_SECRET\<close> are the environment's secrets, taken to be set (with
    \<^verbatim>\<open>SECRET_KEY\<close> unset, \<^verbatim>\<open>crypto.createHmac\<close> throws on every call).
\<close>

datatype jwt_error = JsonWebTokenError string | TokenExpiredError | NotBeforeError

record env =
  hmac :: "string \<Rightarrow> string \<Rightarrow> string"
  SECRET_KEY :: string
  jwt_verify :: "string \<Rightarrow> string \<Rightarrow> jwt_error + jsval"
  JWT_SECRET :: string

text \<open>
  \<^verbatim>\<open>generateOrderHash(order)\<close> (lines 264-282). The callback of \<^verbatim>\<open>order.cart.map\<close>
  builds a fresh object with the four keys in a fixed order; \<^verbatim>\<open>order.address\<close> and
  \<^verbatim>\<open>order.pricing\<close> are passed to \<^verbatim>\<open>JSON.stringify\<close> as they are.
\<close>

definition project_item :: "jsval \<Rightarrow> js_error + jsval" where
  "project_item item =
     (case read_prop item ''productCode'' of
        Inl e \<Rightarrow> Inl e
      | Inr code \<Rightarrow>
          Inr (JObj [(''productCode'', code),
                     (''productName'', get item ''productName''),
                     (''price'', get item ''price''),
                     (''size'', get item ''size'')]))"

definition hashed_projection :: "jsval \<Rightarrow> js_error + jsval" where
  "hashed_projection order =
     (case read_prop order ''cart'' of
        Inl e \<Rightarrow> Inl e
      | Inr cart \<Rightarrow>
          (case array_map project_item cart of
             Inl e \<Rightarrow> Inl e
           | Inr items \<Rightarrow>
               Inr (JObj [(''cart'', JArr items),
                          (''address'', get order ''address''),
                          (''pricing'', get order ''pricing'')])))"

definition orderString :: "jsval \<Rightarrow> js_error + string" where
  "orderString order =
     (case hashed_projection order of
        Inl e \<Rightarrow> Inl e
      | Inr p \<Rightarrow>
          (case serialize p of
             None \<Rightarrow> Inl (TypeError ''The data argument must be of type string'')
           | Some s \<Rightarrow> Inr s))"

definition generateOrderHash :: "env \<Rightarrow> jsval \<Rightarrow> js_error + string" where
  "generateOrderHash E order =
     (case orderString order of
        Inl e \<Rightarrow> Inl e
      | Inr s \<Rightarrow> Inr (hmac E (SECRET_KEY E) s))"

text \<open>\<^verbatim>\<open>verifyOrderHash(order, hash)\<close> (lines 285-288): \<^verbatim>\<open>computedHash === hash\<close>.\<close>

definition verifyOrderHash :: "env \<Rightarrow> jsval \<Rightarrow> jsval \<Rightarrow> js_error + bool" where
  "verifyOrderHash E order hash =
     (case generateOrderHash E order of
        Inl e \<Rightarrow> Inl e
      | Inr computedHash \<Rightarrow> Inr (JStr computedHash = hash))"

section \<open>Token verification\<close>

record response =
  status :: nat
  json :: jsval

definition failure :: "nat \<Rightarrow> string \<Rightarrow> response" where
  "failure code msg =
     \<lparr>status = code, json = JObj [(''success'', JBool False), (''message'', JStr msg)]\<rparr>"

text \<open>
  A middleware either answers the request itself or calls \<^verbatim>\<open>next()\<close>;
  \<^verbatim>\<open>authenticateJWT\<close> calls it after storing \<^verbatim>\<open>decoded.clientId\<close> in the request.
\<close>

datatype middleware_result = Respond response | Next jsval

text \<open>\<^verbatim>\<open>s.split(c)\<close> for a one-character separator: \<^verbatim>\<open>''.split(' ')\<close> is \<^verbatim>\<open>['']\<close>.\<close>

fun split :: "char \<Rightarrow> string \<Rightarrow> string list" where
  "split c [] = [[]]"
| "split c (x # xs) =
     (if x = c then [] # split c xs
      else (case split c xs of w # ws \<Rightarrow> (x # w) # ws | [] \<Rightarrow> [[x]]))"

text \<open>\<^verbatim>\<open>xs[i]\<close>: \<^verbatim>\<open>undefined\<close> (here \<open>None\<close>) when \<open>i\<close> is out of range.\<close>

definition index :: "'a list \<Rightarrow> nat \<Rightarrow> 'a option" where
  "index xs i = (if i < length xs then Some (xs ! i) else None)"

text \<open>
  \<^verbatim>\<open>authenticateJWT\<close> (lines 142-162). \<open>authHeader\<close> is \<^verbatim>\<open>req.headers.authorization\<close>,
  \<open>None\<close> when the request has no such header. Whatever \<^verbatim>\<open>jwt.verify\<close> throws is caught by
  the one \<^verbatim>\<open>catch\<close> clause.
\<close>

definition authenticateJWT :: "env \<Rightarrow> string option \<Rightarrow> middleware_result" where
  "authenticateJWT E authHeader =
     (case authHeader of
        None \<Rightarrow> Respond (failure 401 ''Authorization header missing'')
      | Some h \<Rightarrow>
          if h = [] then Respond (failure 401 ''Authorization header missing'')
          else
            (case index (split CHR '' '' h) 1 of
               None \<Rightarrow> Respond (failure 401 ''Token not provided'')
             | Some token \<Rightarrow>
                 if token = [] then Respond (failure 401 ''Token not provided'')
                 else
                   (case jwt_verify E token (JWT_SECRET E) of
                      Inl err \<Rightarrow> Respond (failure 403 ''Invalid or expired token'')
                    | Inr decoded \<Rightarrow> Next (get decoded ''clientId''))))"

section \<open>The database\<close>

text \<open>
  The product and order collections are the state of the model. A product document has a
  string \<^verbatim>\<open>product_code\<close> (the query matches it against strings); its other fields are
  whatever the collection holds, \<open>JUndefined\<close> when the document lacks the field.
  \<open>outage\<close> is the error with which the driver rejects every operation while the
  database cannot be reached.

  Mongoose itself (casting a document to the schema, defaults, validation) is not
  modelled: saving stores the document the handler passes, under the identifier that
  \<^verbatim>\<open>new Order(order)\<close> generated.
\<close>

record product =
  p_id :: jsval
  product_code :: string
  product_name :: jsval
  product_price :: jsval
  product_imageurl :: jsval

record db =
  products :: "product list"
  orders :: "(jsval \<times> jsval) list"
  outage :: "string option"

text \<open>
  \<^verbatim>\<open>Product.find({ product_code: { $in: productCodes } })\<close>. (\<^verbatim>\<open>sanitizeMongoQuery\<close> returns
  this query as it is: its only key, \<^verbatim>\<open>product_code\<close>, does not start with \<^verbatim>\<open>$\<close>.)
\<close>

definition Product_find :: "db \<Rightarrow> string list \<Rightarrow> js_error + product list" where
  "Product_find D productCodes =
     (case outage D of
        Some m \<Rightarrow> Inl (Error m)
      | None \<Rightarrow> Inr (filter (\<lambda>p. product_code p \<in> set productCodes) (products D)))"

text \<open>\<^verbatim>\<open>newOrder.save()\<close> for the document \<open>order\<close> with the generated identifier \<open>oid\<close>.\<close>

definition Order_save :: "db \<Rightarrow> jsval \<Rightarrow> jsval \<Rightarrow> js_error + db" where
  "Order_save D oid order =
     (case outage D of
        Some m \<Rightarrow> Inl (Error m)
      | None \<Rightarrow> Inr (D\<lparr>orders := orders D @ [(oid, order)]\<rparr>))"

section \<open>Checkout\<close>

text \<open>\<^verbatim>\<open>s.trim()\<close>, for the ASCII white space.\<close>

definition is_space :: "char \<Rightarrow> bool" where
  "is_space c \<longleftrightarrow> c \<in> {CHR '' '', CHR 0x09, CHR 0x0A, CHR 0x0B, CHR 0x0C, CHR 0x0D}"

definition trim :: "string \<Rightarrow> string" where
  "trim s = rev (dropWhile is_space (rev (dropWhile is_space s)))"

text \<open>
  \<^verbatim>\<open>parseFloat(x.toFixed(2))\<close>. \<^verbatim>\<open>toFixed\<close> negates a negative \<open>x\<close> and writes a sign; it
  then takes the integer \<open>n\<close> for which \<open>n / 100 - x\<close> is as close to zero as possible,
  the larger one if there are two, and writes \<open>n\<close> with a point before its last two
  digits. \<^verbatim>\<open>parseFloat\<close> reads that numeral back. (From \<open>10\<^sup>2\<^sup>1\<close> on \<^verbatim>\<open>toFixed\<close> writes the
  number itself; a double of that size is an integer, for which this is the same value.)
\<close>

definition toFixed_n :: "rat \<Rightarrow> int" where
  "toFixed_n x = \<lfloor>x * 100 + 1 / 2\<rfloor>"

definition parseFloat_toFixed2 :: "rat \<Rightarrow> rat" where
  "parseFloat_toFixed2 x =
     (if x < 0 then - (of_int (toFixed_n (- x)) / 100) else of_int (toFixed_n x) / 100)"

text \<open>The callback of the first \<^verbatim>\<open>cart.map\<close> (lines 382-387).\<close>

definition productCode_of :: "jsval \<Rightarrow> js_error + string" where
  "productCode_of item =
     (case read_prop item ''productCode'' of
        Inl e \<Rightarrow> Inl e
      | Inr (JStr code) \<Rightarrow>
          if trim code = [] then Inl (Error ''Invalid product code in cart'')
          else Inr (trim code)
      | Inr v \<Rightarrow> Inl (Error ''Invalid product code in cart''))"

text \<open>
  The callback of the second \<^verbatim>\<open>cart.map\<close> (lines 397-414): \<^verbatim>\<open>null\<close> for a line that is
  dropped. The product is looked up by the line's code as submitted, not trimmed.
\<close>

definition enhance :: "product list \<Rightarrow> jsval \<Rightarrow> jsval" where
  "enhance prods cartItem =
     (case find (\<lambda>p. JStr (product_code p) = get cartItem ''productCode'') prods of
        None \<Rightarrow> JNull
      | Some productData \<Rightarrow>
          (let size = (case get cartItem ''size'' of JStr s \<Rightarrow> trim s | _ \<Rightarrow> [])
           in if size = [] then JNull
              else JObj [(''_id'', p_id productData),
                         (''productCode'', JStr (product_code productData)),
                         (''productName'', product_name productData),
                         (''price'', product_price productData),
                         (''imageUrl'', product_imageurl productData),
                         (''size'', JStr size)]))"

text \<open>The callback of \<^verbatim>\<open>reduce\<close> (lines 422-425).\<close>

definition add_price :: "rat \<Rightarrow> jsval \<Rightarrow> rat" where
  "add_price acc item = acc + (case get item ''price'' of JNum price \<Rightarrow> price | _ \<Rightarrow> 0)"

definition pricing_of :: "jsval list \<Rightarrow> jsval" where
  "pricing_of enhancedCart =
     (let subtotal = foldl add_price 0 enhancedCart;
          discount = parseFloat_toFixed2 (subtotal * (1 / 10));
          delivery = (if subtotal > 700 then 0 else 150);
          total = parseFloat_toFixed2 (subtotal + delivery - discount)
      in JObj [(''subtotal'', JNum subtotal), (''discount'', JNum discount),
               (''delivery'', JNum delivery), (''total'', JNum total)])"

text \<open>The order summary (lines 432-438); \<open>now\<close> is \<^verbatim>\<open>new Date()\<close>.\<close>

definition summary_of :: "jsval list \<Rightarrow> jsval \<Rightarrow> jsval \<Rightarrow> jsval" where
  "summary_of enhancedCart address now =
     JObj [(''cart'', JArr enhancedCart),
           (''address'', address),
           (''pricing'', pricing_of enhancedCart),
           (''orderDate'', now),
           (''status'', JStr ''pending'')]"

text \<open>
  The body of the \<^verbatim>\<open>try\<close> block of the checkout handler (lines 381-447).
\<close>

definition checkout_try :: "env \<Rightarrow> db \<Rightarrow> jsval \<Rightarrow> jsval list \<Rightarrow> jsval \<Rightarrow> js_error + response" where
  "checkout_try E D now cart address =
     (case map_throw productCode_of cart of
        Inl e \<Rightarrow> Inl e
      | Inr productCodes \<Rightarrow>
          (case Product_find D productCodes of
             Inl e \<Rightarrow> Inl e
           | Inr prods \<Rightarrow>
               if prods = [] then Inr (failure 404 ''No products found in database'')
               else
                 (let enhancedCart = filter truthy (map (enhance prods) cart)
                  in if enhancedCart = [] then Inr (failure 400 ''No valid items in cart'')
                     else
                       (let orderSummary = summary_of enhancedCart address now
                        in case generateOrderHash E orderSummary of
                             Inl e \<Rightarrow> Inl e
                           | Inr orderHash \<Rightarrow>
                               Inr \<lparr>status = 200,
                                    json = JObj [(''success'', JBool True),
                                                 (''order'', orderSummary),
                                                 (''orderHash'', JStr orderHash)]\<rparr>))))"

text \<open>
  The handler of \<^verbatim>\<open>POST /api/checkout\<close> (lines 368-452). It runs after the rate limiter,
  the sanitizing middleware (which rewrites the strings of the body with the \<^verbatim>\<open>xss\<close>
  package) and \<^verbatim>\<open>authenticateJWT\<close>; \<open>reqBody\<close> is \<^verbatim>\<open>req.body\<close> as the handler finds it.
\<close>

definition checkout :: "env \<Rightarrow> db \<Rightarrow> jsval \<Rightarrow> jsval \<Rightarrow> response" where
  "checkout E D now reqBody =
     (let cart = get reqBody ''cart''; address = get reqBody ''address'' in
      case cart of
        JArr items \<Rightarrow>
          if items = [] then failure 400 ''Invalid request. Cart items are required.''
          else if \<not> truthy address \<or> \<not> typeof_object address
            then failure 400 ''Invalid request. Address details are required.''
          else
            (case checkout_try E D now items address of
               Inr res \<Rightarrow> res
             | Inl err \<Rightarrow>
                 \<lparr>status = 500,
                  json = JObj [(''success'', JBool False),
                               (''message'', JStr ''Server error processing order''),
                               (''error'', JStr (message err))]\<rparr>)
      | _ \<Rightarrow> failure 400 ''Invalid request. Cart items are required.'')"

section \<open>Saving an order\<close>

text \<open>
  The handler of \<^verbatim>\<open>POST /api/save-order\<close> (lines 455-500): the answer and the database
  after the request. \<open>oid\<close> is the identifier that \<^verbatim>\<open>new Order(order)\<close> generates.
\<close>

definition save_order_try :: "env \<Rightarrow> db \<Rightarrow> jsval \<Rightarrow> jsval \<Rightarrow> js_error + response \<times> db" where
  "save_order_try E D oid reqBody =
     (let order = get reqBody ''order''; orderHash = get reqBody ''orderHash'' in
      if \<not> truthy order \<or> \<not> truthy orderHash \<or> \<not> typeof_string orderHash
        then Inr (failure 400 ''Invalid order data or missing hash'', D)
      else if \<not> truthy (get order ''cart'') \<or> \<not> isArray (get order ''cart'')
              \<or> \<not> truthy (get order ''address'') \<or> \<not> truthy (get order ''pricing'')
        then Inr (failure 400 ''Order is missing required fields'', D)
      else
        (case verifyOrderHash E order orderHash of
           Inl e \<Rightarrow> Inl e
         | Inr False \<Rightarrow>
             Inr (failure 400
               ''Order verification failed. The order data may have been tampered with.'', D)
         | Inr True \<Rightarrow>
             (case Order_save D oid order of
                Inl e \<Rightarrow> Inl e
              | Inr D' \<Rightarrow>
                  Inr (\<lparr>status = 200,
                        json = JObj [(''success'', JBool True),
                                     (''message'', JStr ''Order saved successfully''),
                                     (''orderId'', oid)]\<rparr>, D'))))"

definition save_order :: "env \<Rightarrow> db \<Rightarrow> jsval \<Rightarrow> jsval \<Rightarrow> response \<times> db" where
  "save_order E D oid reqBody =
     (case save_order_try E D oid reqBody of
        Inr res \<Rightarrow> res
      | Inl err \<Rightarrow>
          (\<lparr>status = 500,
            json = JObj [(''success'', JBool False),
                         (''message'', JStr ''Server error saving order''),
                         (''error'', JStr (message err))]\<rparr>, D))"

section \<open>Notions used by the properties\<close>

subsection \<open>Edits of an order by the client\<close>

text \<open>
  Between checkout and save-order the order is in the client's hands. \<open>put obj k v\<close> is the
  assignment \<^verbatim>\<open>obj[k] = v\<close>: it overwrites the value of an existing key in place and
  appends a new key at the end; on a value that is not an object it does nothing.
\<close>

fun put :: "jsval \<Rightarrow> string \<Rightarrow> jsval \<Rightarrow> jsval" where
  "put (JObj kvs) k v = JObj (AList.update k v kvs)"
| "put x k v = x"

datatype edit =
    SetField string jsval
  | SetLineField nat string jsval
  | SetAddressField string jsval
  | SetPricingField string jsval

text \<open>
  \<open>SetField k v\<close> is \<^verbatim>\<open>order[k] = v\<close>, \<open>SetLineField i k v\<close> is \<^verbatim>\<open>order.cart[i][k] = v\<close>,
  \<open>SetAddressField k v\<close> is \<^verbatim>\<open>order.address[k] = v\<close> and \<open>SetPricingField k v\<close> is
  \<^verbatim>\<open>order.pricing[k] = v\<close>.
\<close>

fun apply_edit :: "edit \<Rightarrow> jsval \<Rightarrow> jsval" where
  "apply_edit (SetField k v) order = put order k v"
| "apply_edit (SetLineField i k v) order =
     (case get order ''cart'' of
        JArr items \<Rightarrow>
          if i < length items then put order ''cart'' (JArr (items[i := put (items ! i) k v]))
          else order
      | _ \<Rightarrow> order)"
| "apply_edit (SetAddressField k v) order =
     put order ''address'' (put (get order ''address'') k v)"
| "apply_edit (SetPricingField k v) order =
     put order ''pricing'' (put (get order ''pricing'') k v)"









text \<open>Two objects with the same keys and values, the keys possibly in another order.\<close>

fun key_reordering :: "jsval \<Rightarrow> jsval \<Rightarrow> bool" where
  "key_reordering (JObj xs) (JObj ys) =
     (distinct (map fst xs) \<and> distinct (map fst ys) \<and> set xs = set ys)"
| "key_reordering x y = (x = y)"


subsection \<open>Rounding, as the specification words it\<close>



subsection \<open>Example data\<close>

text \<open>
  The examples instantiate the MAC by the function that returns the key followed by the
  message, and the token verifier by one that accepts the token \<^verbatim>\<open>good\<close>, finds the token
  \<^verbatim>\<open>old\<close> expired and every other token malformed.
\<close>

definition demo_env :: env where
  "demo_env =
     \<lparr>hmac = (\<lambda>key msg. key @ msg),
      SECRET_KEY = ''k'',
      jwt_verify = (\<lambda>token secret.
         if token = ''good'' then Inr (JObj [(''clientId'', JStr ''c1'')])
         else if token = ''old'' then Inl TokenExpiredError
         else Inl (JsonWebTokenError ''jwt malformed'')),
      JWT_SECRET = ''s''\<rparr>"

definition demo_db :: db where
  "demo_db =
     \<lparr>products =
        [\<lparr>p_id = JStr ''p1'', product_code = ''A1'', product_name = JStr ''Shirt'',
          product_price = JNum 800, product_imageurl = JStr ''a1.png''\<rparr>,
         \<lparr>p_id = JStr ''p2'', product_code = ''B2'', product_name = JStr ''Cap'',
          product_price = JNum (1 / 8), product_imageurl = JStr ''b2.png''\<rparr>],
      orders = [],
      outage = None\<rparr>"


definition demo_address :: jsval where
  "demo_address = JObj [(''city'', JStr ''Pune''), (''zip'', JStr ''411001'')]"

definition demo_line :: "string \<Rightarrow> jsval" where
  "demo_line code = JObj [(''productCode'', JStr code), (''size'', JStr ''M'')]"

definition demo_request :: "string list \<Rightarrow> jsval" where
  "demo_request codes = JObj [(''cart'', JArr (map demo_line codes)), (''address'', demo_address)]"

definition demo_order :: jsval where
  "demo_order =
     JObj [(''cart'', JArr [JObj [(''_id'', JStr ''p1''), (''productCode'', JStr ''A1''),
                                  (''productName'', JStr ''Shirt''), (''price'', JNum 800),
                                  (''imageUrl'', JStr ''a1.png''), (''size'', JStr ''M'')]]),
           (''address'', demo_address),
           (''pricing'', JObj [(''subtotal'', JNum 800), (''discount'', JNum 80),
                               (''delivery'', JNum 0), (''total'', JNum 720)]),
           (''orderDate'', JStr ''2024-01-01T00:00:00.000Z''),
           (''status'', JStr ''pending'')]"

definition demo_string :: string where
  \<open>demo_string = ''{"cart":[{"productCode":"A1","productName":"Shirt","price":800,"size":"M"}],"address":{"city":"Pune","zip":"411001"},"pricing":{"subtotal":800,"discount":80,"delivery":0,"total":720}}''\<close>

definition demo_now :: jsval where
  "demo_now = JStr ''2024-01-01T00:00:00.000Z''"

definition demo_digest :: string where
  "demo_digest = ''k'' @ demo_string"

subsection \<open>Predicates on requests\<close>

text \<open>
  A save-order request that passes the two shape checks of the handler (lines 459-472),
  so that the handler goes on to verify the digest.
\<close>

definition passes_shape_checks :: "jsval \<Rightarrow> bool" where
  "passes_shape_checks reqBody \<longleftrightarrow>
     truthy (get reqBody ''order'') \<and> truthy (get reqBody ''orderHash'') \<and>
     typeof_string (get reqBody ''orderHash'') \<and>
     truthy (get (get reqBody ''order'') ''cart'') \<and>
     isArray (get (get reqBody ''order'') ''cart'') \<and>
     truthy (get (get reqBody ''order'') ''address'') \<and>
     truthy (get (get reqBody ''order'') ''pricing'')"

text \<open>A cart line whose \<^verbatim>\<open>productCode\<close> is not a string that is non-empty after trimming.\<close>

definition invalid_code :: "jsval \<Rightarrow> bool" where
  "invalid_code item \<longleftrightarrow>
     (case get item ''productCode'' of JStr code \<Rightarrow> trim code = [] | _ \<Rightarrow> True)"



text \<open>
  The example order with the keys of its address in the other order, and with the keys
  of the order and of its cart line in another order.
\<close>

definition demo_order_swapped :: jsval where
  "demo_order_swapped =
     put demo_order ''address'' (JObj [(''zip'', JStr ''411001''), (''city'', JStr ''Pune'')])"

definition demo_string_swapped :: string where
  \<open>demo_string_swapped = ''{"cart":[{"productCode":"A1","productName":"Shirt","price":800,"size":"M"}],"address":{"zip":"411001","city":"Pune"},"pricing":{"subtotal":800,"discount":80,"delivery":0,"total":720}}''\<close>

definition demo_order_lines_swapped :: jsval where
  "demo_order_lines_swapped =
     JObj [(''status'', JStr ''pending''),
           (''pricing'', JObj [(''subtotal'', JNum 800), (''discount'', JNum 80),
                               (''delivery'', JNum 0), (''total'', JNum 720)]),
           (''address'', demo_address),
           (''cart'', JArr [JObj [(''size'', JStr ''M''), (''price'', JNum 800),
                                  (''productName'', JStr ''Shirt''), (''productCode'', JStr ''A1''),
                                  (''imageUrl'', JStr ''a1.png''), (''_id'', JStr ''p1'')]]),
           (''orderDate'', JStr ''2024-01-01T00:00:00.000Z'')]"

subsection \<open>Notions used by the proof that serialization is injective\<close>




















section \<open>Properties\<close>

subsection \<open>Auxiliary facts\<close>

lemma status_failure [simp]: "status (failure c m) = c"
  by (simp add: failure_def)

lemma json_failure [simp]:
  "json (failure c m) = JObj [(''success'', JBool False), (''message'', JStr m)]"
  by (simp add: failure_def)

lemma checkout_try_200:
  assumes "checkout_try E D now items address = Inr r" and "status r = 200"
  shows "\<exists>codes prods h.
           map_throw productCode_of items = Inr codes \<and>
           Product_find D codes = Inr prods \<and> prods \<noteq> [] \<and>
           filter truthy (map (enhance prods) items) \<noteq> [] \<and>
           generateOrderHash E
             (summary_of (filter truthy (map (enhance prods) items)) address now) = Inr h \<and>
           r = \<lparr>status = 200,
                 json = JObj [(''success'', JBool True),
                              (''order'',
                               summary_of (filter truthy (map (enhance prods) items)) address now),
                              (''orderHash'', JStr h)]\<rparr>"
  using assms
  by (auto simp: checkout_try_def Let_def split: sum.splits if_splits)

lemma checkout_200:
  assumes "status (checkout E D now reqBody) = 200"
  shows "\<exists>items. get reqBody ''cart'' = JArr items \<and> items \<noteq> [] \<and>
           truthy (get reqBody ''address'') \<and> typeof_object (get reqBody ''address'') \<and>
           checkout_try E D now items (get reqBody ''address'') = Inr (checkout E D now reqBody)"
  using assms
  by (auto simp: checkout_def Let_def split: jsval.splits sum.splits if_splits)

lemma verify_generated:
  "generateOrderHash E S = Inr d \<Longrightarrow> verifyOrderHash E S (JStr d) = Inr True"
  by (simp add: verifyOrderHash_def)

lemma get_put_other: "k' \<noteq> k \<Longrightarrow> get (put S k v) k' = get S k'"
  by (cases S) (simp_all add: update_conv')

lemma read_prop_put_other: "k' \<noteq> k \<Longrightarrow> read_prop (put S k v) k' = read_prop S k'"
  by (cases S) (simp_all add: update_conv')

lemma map_throw_cong: "map f xs = map g ys \<Longrightarrow> map_throw f xs = map_throw g ys"
proof (induction xs arbitrary: ys)
  case Nil
  then show ?case by simp
next
  case (Cons x xs)
  then obtain y ys' where ys: "ys = y # ys'" by (cases ys) auto
  with Cons.prems have "f x = g y" "map f xs = map g ys'" by simp_all
  with Cons.IH [of ys'] show ?case by (simp add: ys split: sum.splits)
qed




text \<open>The projection is a function of three reads of the order.\<close>

lemma hashed_projection_cong:
  assumes "read_prop S' ''cart'' = Inr c'" "read_prop S ''cart'' = Inr c"
    and "array_map project_item c' = array_map project_item c"
    and "get S' ''address'' = get S ''address''" "get S' ''pricing'' = get S ''pricing''"
  shows "hashed_projection S' = hashed_projection S"
  using assms by (simp add: hashed_projection_def split: sum.splits)







lemma demo_order_hash: "generateOrderHash demo_env demo_order = Inr demo_digest"
  by code_simp

subsection \<open>C2: hashing and verifying\<close>

text \<open>
  Claim C2. Whenever \<^verbatim>\<open>generateOrderHash(S)\<close> returns a digest \<open>d\<close>,
  \<^verbatim>\<open>verifyOrderHash(S, d)\<close> is \<^verbatim>\<open>true\<close>; and whenever the checkout handler answers 200, the
  order of its answer verifies against the \<^verbatim>\<open>orderHash\<close> of the same answer.
\<close>

theorem hash_verify_roundtrip:
  "(generateOrderHash E S = Inr d \<longrightarrow> verifyOrderHash E S (JStr d) = Inr True) \<and>
   (status (checkout E D now reqBody) = 200 \<longrightarrow>
      verifyOrderHash E (get (json (checkout E D now reqBody)) ''order'')
        (get (json (checkout E D now reqBody)) ''orderHash'') = Inr True)"
proof (intro conjI impI)
  assume "generateOrderHash E S = Inr d"
  then show "verifyOrderHash E S (JStr d) = Inr True" by (rule verify_generated)
next
  assume ok: "status (checkout E D now reqBody) = 200"
  from checkout_200 [OF ok] obtain items where
    tr: "checkout_try E D now items (get reqBody ''address'') = Inr (checkout E D now reqBody)"
    by blast
  from checkout_try_200 [OF tr ok] obtain prods h where
    h: "generateOrderHash E
          (summary_of (filter truthy (map (enhance prods) items)) (get reqBody ''address'') now)
        = Inr h"
    and r: "checkout E D now reqBody =
      \<lparr>status = 200,
       json = JObj [(''success'', JBool True),
                    (''order'',
                     summary_of (filter truthy (map (enhance prods) items))
                       (get reqBody ''address'') now),
                    (''orderHash'', JStr h)]\<rparr>"
    by blast
  show "verifyOrderHash E (get (json (checkout E D now reqBody)) ''order'')
        (get (json (checkout E D now reqBody)) ''orderHash'') = Inr True"
    by (simp add: r verify_generated [OF h])
qed

text \<open>
  The example order hashes to \<open>demo_digest\<close> and verifies against it, and the checkout of
  one known product answers 200 with an order that verifies.
\<close>

theorem hash_verify_roundtrip_witness:
  "generateOrderHash demo_env demo_order = Inr demo_digest \<and>
   verifyOrderHash demo_env demo_order (JStr demo_digest) = Inr True \<and>
   status (checkout demo_env demo_db demo_now (demo_request [''A1''])) = 200 \<and>
   verifyOrderHash demo_env
     (get (json (checkout demo_env demo_db demo_now (demo_request [''A1'']))) ''order'')
     (get (json (checkout demo_env demo_db demo_now (demo_request [''A1'']))) ''orderHash'')
     = Inr True"
proof -
  have ok: "status (checkout demo_env demo_db demo_now (demo_request [''A1''])) = 200"
    by code_simp
  from hash_verify_roundtrip [of demo_env demo_order demo_digest demo_db demo_now
      "demo_request [''A1'']"] demo_order_hash ok
  show ?thesis by simp
qed

subsection \<open>C10: fields outside the projection\<close>











lemma productCode_of_invalid: "invalid_code item \<Longrightarrow> \<exists>e. productCode_of item = Inl e"
  by (cases item) (auto simp: invalid_code_def productCode_of_def split: jsval.splits option.splits)

lemma map_throw_invalid:
  "item \<in> set items \<Longrightarrow> invalid_code item \<Longrightarrow> \<exists>e. map_throw productCode_of items = Inl e"
proof (induction items)
  case Nil
  then show ?case by simp
next
  case (Cons x xs)
  show ?case
  proof (cases "productCode_of x")
    case (Inl e)
    then show ?thesis by simp
  next
    case (Inr c)
    with productCode_of_invalid [of x] Cons.prems have "item \<in> set xs" by auto
    from Cons.IH [OF this Cons.prems(2)] Inr show ?thesis by auto
  qed
qed

subsection \<open>C9: a digest that does not verify\<close>

text \<open>
  Claim C9. If the verification of the submitted order against the submitted digest
  fails, save-order answers 400 and leaves the database as it was: nothing is stored
  and no identifier is handed out. When the request passes the handler's shape checks,
  the answer is the integrity violation
  (\<^verbatim>\<open>Order verification failed. The order data may have been tampered with.\<close>).
\<close>

theorem integrity_violation_atomic:
  assumes "verifyOrderHash E (get reqBody ''order'') (get reqBody ''orderHash'') = Inr False"
  shows "snd (save_order E D oid reqBody) = D \<and>
         status (fst (save_order E D oid reqBody)) = 400 \<and>
         (passes_shape_checks reqBody \<longrightarrow>
            fst (save_order E D oid reqBody) =
              failure 400 ''Order verification failed. The order data may have been tampered with.'')"
  using assms
  by (simp add: save_order_def save_order_try_def Let_def passes_shape_checks_def)

text \<open>The example order with the price of its first line set to 1, sent with the old digest.\<close>

theorem integrity_violation_atomic_witness:
  "verifyOrderHash demo_env (apply_edit (SetLineField 0 ''price'' (JNum 1)) demo_order) (JStr demo_digest) = Inr False \<and>
   passes_shape_checks (JObj [(''order'', apply_edit (SetLineField 0 ''price'' (JNum 1)) demo_order), (''orderHash'', JStr demo_digest)]) \<and>
   save_order demo_env demo_db (JStr ''o1'') (JObj [(''order'', apply_edit (SetLineField 0 ''price'' (JNum 1)) demo_order), (''orderHash'', JStr demo_digest)])
     = (failure 400 ''Order verification failed. The order data may have been tampered with.'', demo_db)"
proof -
  let ?b = "JObj [(''order'', apply_edit (SetLineField 0 ''price'' (JNum 1)) demo_order), (''orderHash'', JStr demo_digest)]"
  have v: "verifyOrderHash demo_env (get ?b ''order'') (get ?b ''orderHash'') = Inr False"
    by code_simp
  have p: "passes_shape_checks ?b" by code_simp
  from integrity_violation_atomic [OF v, of demo_db "JStr ''o1''"] p v show ?thesis
    by (simp add: prod_eq_iff)
qed

subsection \<open>C8: token verification\<close>

text \<open>
  Claim C8, amended. A request without an \<^verbatim>\<open>Authorization\<close> header, or whose header has no
  non-empty second part when split at spaces, is answered 401. Once a token is present,
  every failure of \<^verbatim>\<open>jwt.verify\<close> is answered 403, whatever its cause: a malformed or
  unparseable token as much as a bad signature or an expired token. On success the
  handler is given \<^verbatim>\<open>decoded.clientId\<close>.
\<close>

theorem token_taxonomy:
  "authenticateJWT E None = Respond (failure 401 ''Authorization header missing'') \<and>
   (index (split CHR '' '' h) 1 = None \<or> index (split CHR '' '' h) 1 = Some [] \<longrightarrow>
      (\<exists>m. authenticateJWT E (Some h) = Respond (failure 401 m))) \<and>
   (index (split CHR '' '' h) 1 = Some token \<and> token \<noteq> [] \<and>
    jwt_verify E token (JWT_SECRET E) = Inl err \<longrightarrow>
      authenticateJWT E (Some h) = Respond (failure 403 ''Invalid or expired token'')) \<and>
   (index (split CHR '' '' h) 1 = Some token \<and> token \<noteq> [] \<and>
    jwt_verify E token (JWT_SECRET E) = Inr decoded \<longrightarrow>
      authenticateJWT E (Some h) = Next (get decoded ''clientId''))"
  by (auto simp: authenticateJWT_def index_def)

text \<open>
  The claim as stated fails: a token that \<^verbatim>\<open>jwt.verify\<close> rejects as malformed is answered
  403 (forbidden), not 401 (unauthenticated).
\<close>

theorem malformed_token_forbidden:
  "jwt_verify demo_env ''not-a-jwt'' (JWT_SECRET demo_env) = Inl (JsonWebTokenError ''jwt malformed'') \<and>
   authenticateJWT demo_env (Some ''Bearer not-a-jwt'') = Respond (failure 403 ''Invalid or expired token'')"
  by code_simp

text \<open>A header without a token, an expired token and a valid token.\<close>

theorem token_taxonomy_witness:
  "authenticateJWT demo_env (Some ''Bearer'') = Respond (failure 401 ''Token not provided'') \<and>
   authenticateJWT demo_env (Some ''Bearer old'') = Respond (failure 403 ''Invalid or expired token'') \<and>
   authenticateJWT demo_env (Some ''Bearer good'') = Next (JStr ''c1'')"
proof -
  have a: "index (split CHR '' '' ''Bearer'') 1 = None" by code_simp
  have b: "index (split CHR '' '' ''Bearer old'') 1 = Some ''old'' \<and> ''old'' \<noteq> [] \<and>
      jwt_verify demo_env ''old'' (JWT_SECRET demo_env) = Inl TokenExpiredError" by code_simp
  have c: "index (split CHR '' '' ''Bearer good'') 1 = Some ''good'' \<and> ''good'' \<noteq> [] \<and>
      jwt_verify demo_env ''good'' (JWT_SECRET demo_env) = Inr (JObj [(''clientId'', JStr ''c1'')])" by code_simp
  have a': "authenticateJWT demo_env (Some ''Bearer'') = Respond (failure 401 ''Token not provided'')" by code_simp
  from token_taxonomy [of demo_env "''Bearer old''" "''old''" TokenExpiredError] b
  have b': "authenticateJWT demo_env (Some ''Bearer old'') = Respond (failure 403 ''Invalid or expired token'')" by blast
  from token_taxonomy [of demo_env "''Bearer good''" "''good''" _ "JObj [(''clientId'', JStr ''c1'')]"] c
  have c': "authenticateJWT demo_env (Some ''Bearer good'') = Next (JStr ''c1'')" by simp
  from a' b' c' show ?thesis by simp
qed

subsection \<open>C7: a cart line with an invalid product code\<close>

text \<open>
  Claim C7 says that checkout rejects such a request as invalid input, a client error.
  The code does reject it, and produces no order and no digest, but with status 500:
  the \<^verbatim>\<open>Error\<close> thrown in the callback of \<^verbatim>\<open>cart.map\<close> is caught by the handler's one
  \<^verbatim>\<open>catch\<close> clause, which answers every exception as a server error.
\<close>

theorem invalid_code_server_error:
  assumes "get reqBody ''cart'' = JArr items" and "item \<in> set items" and "invalid_code item"
    and "truthy (get reqBody ''address'')" and "typeof_object (get reqBody ''address'')"
  shows "status (checkout E D now reqBody) = 500 \<and>
         get (json (checkout E D now reqBody)) ''message'' = JStr ''Server error processing order'' \<and>
         get (json (checkout E D now reqBody)) ''order'' = JUndefined \<and>
         get (json (checkout E D now reqBody)) ''orderHash'' = JUndefined"
proof -
  from map_throw_invalid [OF assms(2,3)] obtain e where
    "map_throw productCode_of items = Inl e" by blast
  then have "checkout_try E D now items (get reqBody ''address'') = Inl e"
    by (simp add: checkout_try_def)
  moreover from assms(2) have "items \<noteq> []" by auto
  ultimately show ?thesis using assms(1,4,5)
    by (simp add: checkout_def)
qed

text \<open>A cart whose only line has a blank product code.\<close>

theorem invalid_code_server_error_witness:
  "checkout demo_env demo_db demo_now (demo_request [''  '']) =
     \<lparr>status = 500,
      json = JObj [(''success'', JBool False),
                   (''message'', JStr ''Server error processing order''),
                   (''error'', JStr ''Invalid product code in cart'')]\<rparr>"
proof -
  have a: "get (demo_request [''  '']) ''cart'' = JArr [demo_line ''  '']"
    by (simp add: demo_request_def)
  have b: "demo_line ''  '' \<in> set [demo_line ''  '']" by simp
  have c: "invalid_code (demo_line ''  '')" by code_simp
  have d: "truthy (get (demo_request [''  '']) ''address'')"
    "typeof_object (get (demo_request [''  '']) ''address'')"
    by (simp_all add: demo_request_def demo_address_def)
  have e: "checkout demo_env demo_db demo_now (demo_request [''  '']) =
     \<lparr>status = 500,
      json = JObj [(''success'', JBool False),
                   (''message'', JStr ''Server error processing order''),
                   (''error'', JStr ''Invalid product code in cart'')]\<rparr>"
    by code_simp
  from invalid_code_server_error [OF a b c d, of demo_env demo_db demo_now] e
  show ?thesis by simp
qed

subsection \<open>C6: dropping cart lines\<close>















lemma key_reordering_get: "key_reordering a b \<Longrightarrow> get a k = get b k"
proof (cases a; cases b)
  fix xs ys assume "key_reordering a b" "a = JObj xs" "b = JObj ys"
  then have "map_of xs = map_of ys"
    by (simp add: map_of_inject_set)
  with \<open>a = JObj xs\<close> \<open>b = JObj ys\<close> show "get a k = get b k" by simp
qed auto

lemma key_reordering_read: "key_reordering a b \<Longrightarrow> read_prop a k = read_prop b k"
  using key_reordering_get [of a b k]
  by (cases a; cases b) auto

lemma key_reordering_project: "key_reordering a b \<Longrightarrow> project_item a = project_item b"
  by (simp add: project_item_def key_reordering_get [of a b] key_reordering_read [of a b]
      split: sum.splits)

lemma list_all2_project:
  "list_all2 key_reordering ls ls' \<Longrightarrow> map project_item ls = map project_item ls'"
  by (induction rule: list_all2_induct) (simp_all add: key_reordering_project)

subsection \<open>C4: the pricing formulas\<close>



subsection \<open>C5: rounding and sign of the pricing\<close>




subsection \<open>C1: the order of keys\<close>

text \<open>
  Claim C1, amended. The digest does not depend on the order of the keys of the order
  object or of its cart-line objects: two orders whose carts have the same length and
  whose lines are pairwise equal up to the order of their keys, and whose \<^verbatim>\<open>address\<close> and
  \<^verbatim>\<open>pricing\<close> are the same values, keys in the same order, have the same digest. (The
  digest does depend on the order of the keys inside \<^verbatim>\<open>address\<close> and \<^verbatim>\<open>pricing\<close>, which
  \<^verbatim>\<open>JSON.stringify\<close> writes as it finds them.)
\<close>

theorem line_key_order_irrelevant:
  assumes "get S ''cart'' = JArr ls" and "get S' ''cart'' = JArr ls'"
    and "list_all2 key_reordering ls ls'"
    and "get S' ''address'' = get S ''address''" and "get S' ''pricing'' = get S ''pricing''"
  shows "generateOrderHash E S' = generateOrderHash E S"
proof -
  from assms(1) obtain kvs where S: "S = JObj kvs" by (cases S) auto
  from assms(2) obtain kvs' where S': "S' = JObj kvs'" by (cases S') auto
  have "hashed_projection S' = hashed_projection S"
  proof (rule hashed_projection_cong)
    show "read_prop S' ''cart'' = Inr (JArr ls')" using assms(2) unfolding S' by simp
    show "read_prop S ''cart'' = Inr (JArr ls)" using assms(1) unfolding S by simp
    show "array_map project_item (JArr ls') = array_map project_item (JArr ls)"
      using map_throw_cong [OF list_all2_project [OF assms(3)]] by simp
  qed (fact assms(4) assms(5))+
  then show ?thesis by (simp add: generateOrderHash_def orderString_def)
qed

text \<open>The example order with the keys of the order and of its line shuffled.\<close>

theorem line_key_order_irrelevant_witness:
  "generateOrderHash demo_env demo_order_lines_swapped = generateOrderHash demo_env demo_order \<and>
   demo_order_lines_swapped \<noteq> demo_order"
proof -
  have a: "get demo_order ''cart'' = JArr [JObj [(''_id'', JStr ''p1''), (''productCode'', JStr ''A1''),
                                  (''productName'', JStr ''Shirt''), (''price'', JNum 800),
                                  (''imageUrl'', JStr ''a1.png''), (''size'', JStr ''M'')]]"
    by (simp add: demo_order_def)
  have b: "get demo_order_lines_swapped ''cart'' = JArr [JObj [(''size'', JStr ''M''), (''price'', JNum 800),
                                  (''productName'', JStr ''Shirt''), (''productCode'', JStr ''A1''),
                                  (''imageUrl'', JStr ''a1.png''), (''_id'', JStr ''p1'')]]"
    by (simp add: demo_order_lines_swapped_def)
  have c: "list_all2 key_reordering [JObj [(''_id'', JStr ''p1''), (''productCode'', JStr ''A1''),
                                  (''productName'', JStr ''Shirt''), (''price'', JNum 800),
                                  (''imageUrl'', JStr ''a1.png''), (''size'', JStr ''M'')]]
       [JObj [(''size'', JStr ''M''), (''price'', JNum 800),
                                  (''productName'', JStr ''Shirt''), (''productCode'', JStr ''A1''),
                                  (''imageUrl'', JStr ''a1.png''), (''_id'', JStr ''p1'')]]"
    by auto
  have d: "get demo_order_lines_swapped ''address'' = get demo_order ''address''"
     "get demo_order_lines_swapped ''pricing'' = get demo_order ''pricing''"
    by (simp_all add: demo_order_lines_swapped_def demo_order_def)
  have e: "demo_order_lines_swapped \<noteq> demo_order"
    by (simp add: demo_order_lines_swapped_def demo_order_def)
  from line_key_order_irrelevant [OF a b c d] e show ?thesis by simp
qed

text \<open>
  The claim as stated fails: with the two keys of the address swapped, the string that is
  hashed is another one, so the digests agree only where the MAC collides on the two
  strings; they differ for the MAC of the examples.
\<close>

theorem address_key_order_matters:
  "key_reordering (get demo_order ''address'') (get demo_order_swapped ''address'') \<and>
   get demo_order_swapped ''cart'' = get demo_order ''cart'' \<and>
   get demo_order_swapped ''pricing'' = get demo_order ''pricing'' \<and>
   orderString demo_order = Inr demo_string \<and>
   orderString demo_order_swapped = Inr demo_string_swapped \<and>
   demo_string \<noteq> demo_string_swapped \<and>
   generateOrderHash demo_env demo_order_swapped \<noteq> generateOrderHash demo_env demo_order \<and>
   (\<forall>E. (generateOrderHash E demo_order_swapped = generateOrderHash E demo_order) =
         (hmac E (SECRET_KEY E) demo_string_swapped = hmac E (SECRET_KEY E) demo_string))"
proof -
  have a: "key_reordering (get demo_order ''address'') (get demo_order_swapped ''address'')"
    by (auto simp: demo_order_def demo_order_swapped_def demo_address_def)
  have b: "get demo_order_swapped ''cart'' = get demo_order ''cart''"
    "get demo_order_swapped ''pricing'' = get demo_order ''pricing''"
    by (simp_all add: demo_order_def demo_order_swapped_def)
  have c: "orderString demo_order = Inr demo_string" by code_simp
  have d: "orderString demo_order_swapped = Inr demo_string_swapped" by code_simp
  have e: "demo_string \<noteq> demo_string_swapped"
    by (simp add: demo_string_def demo_string_swapped_def)
  have f: "generateOrderHash demo_env demo_order_swapped \<noteq> generateOrderHash demo_env demo_order"
    using e by (simp add: generateOrderHash_def c d demo_env_def)
  have g: "(generateOrderHash E demo_order_swapped = generateOrderHash E demo_order) =
         (hmac E (SECRET_KEY E) demo_string_swapped = hmac E (SECRET_KEY E) demo_string)" for E
    by (simp add: generateOrderHash_def c d)
  from a b c d e f g show ?thesis by blast
qed

subsection \<open>Injectivity of the serialization\<close>














































































subsection \<open>C3: tamper detection\<close>



subsection \<open>Further properties\<close>

text \<open>
  Save-order changes the database in one way only: when it answers 200, the order of the
  request has been appended to the order collection under the new identifier; with any
  other answer the database is as it was.
\<close>

theorem save_order_frame:
  "snd (save_order E D oid reqBody) =
     (if status (fst (save_order E D oid reqBody)) = 200
      then D\<lparr>orders := orders D @ [(oid, get reqBody ''order'')]\<rparr>
      else D)"
  by (simp add: save_order_def save_order_try_def Let_def Order_save_def
      split: sum.splits bool.splits option.splits)

lemma productCode_of_put:
  "k \<noteq> ''productCode'' \<Longrightarrow> productCode_of (put item k v) = productCode_of item"
  by (simp add: productCode_of_def read_prop_put_other)

lemma enhance_put:
  "k \<noteq> ''productCode'' \<Longrightarrow> k \<noteq> ''size'' \<Longrightarrow> enhance prods (put item k v) = enhance prods item"
  by (simp add: enhance_def get_put_other split: option.splits)

text \<open>
  Checkout reads nothing of a cart line but \<^verbatim>\<open>productCode\<close> and \<^verbatim>\<open>size\<close>: whatever else
  the client writes into a line, a price for instance, the answer is the same.
\<close>

theorem client_fields_ignored:
  assumes "k \<noteq> ''productCode''" and "k \<noteq> ''size''"
  shows "checkout E D now (apply_edit (SetLineField i k v) reqBody) = checkout E D now reqBody"
proof (cases "\<exists>items. get reqBody ''cart'' = JArr items \<and> i < length items")
  case True
  then obtain items where c: "get reqBody ''cart'' = JArr items" and i: "i < length items" by blast
  from c obtain kvs where b: "reqBody = JObj kvs" by (cases reqBody) auto
  let ?items' = "items[i := put (items ! i) k v]"
  let ?b' = "put reqBody ''cart'' (JArr ?items')"
  have e: "apply_edit (SetLineField i k v) reqBody = ?b'" using c i by simp
  have c': "get ?b' ''cart'' = JArr ?items'" unfolding b by (simp add: update_conv')
  have a': "get ?b' ''address'' = get reqBody ''address''" by (simp add: get_put_other)
  have m1: "map productCode_of ?items' = map productCode_of items"
    using assms i by (simp add: list_eq_iff_nth_eq nth_list_update productCode_of_put)
  have m2: "map (enhance prods) ?items' = map (enhance prods) items" for prods
    using assms i by (simp add: list_eq_iff_nth_eq nth_list_update enhance_put)
  have t: "checkout_try E D now ?items' a = checkout_try E D now items a" for a
    unfolding checkout_try_def map_throw_cong [OF m1] m2 ..
  have n: "?items' = [] \<longleftrightarrow> items = []" by simp
  show ?thesis
    unfolding e by (simp add: checkout_def Let_def c c' a' t del: put.simps)
next
  case False
  then show ?thesis by (auto split: jsval.splits)
qed

text \<open>A request whose line carries a price of 1 for a product that costs 800.\<close>

theorem client_fields_ignored_witness:
  "checkout demo_env demo_db demo_now
     (apply_edit (SetLineField 0 ''price'' (JNum 1)) (demo_request [''A1''])) =
   checkout demo_env demo_db demo_now (demo_request [''A1'']) \<and>
   apply_edit (SetLineField 0 ''price'' (JNum 1)) (demo_request [''A1'']) \<noteq> demo_request [''A1'']"
proof -
  have "apply_edit (SetLineField 0 ''price'' (JNum 1)) (demo_request [''A1'']) \<noteq> demo_request [''A1'']"
    by (simp add: demo_request_def demo_line_def)
  with client_fields_ignored [of "''price''" demo_env demo_db demo_now 0 "JNum 1" "demo_request [''A1'']"]
  show ?thesis by simp
qed

end
